theory Spec2Isabelle
  imports Complex_Main "HOL-Library.Monad_Syntax"
begin

section \<open>Strings\<close>

text \<open>
  JavaScript strings are modelled as \<^typ>\<open>string\<close>. Property names and colour values of
  a theme are ASCII, so one \<^typ>\<open>char\<close> stands for one UTF-16 code unit; characters are
  classified by their code, as the engine's regular expressions and number parsers do.
\<close>

definition code :: "char \<Rightarrow> nat" where
  "code c = of_char c"

definition isDigit :: "char \<Rightarrow> bool" where
  "isDigit c = (48 \<le> code c \<and> code c \<le> 57)"

definition isLower :: "char \<Rightarrow> bool" where
  "isLower c = (97 \<le> code c \<and> code c \<le> 122)"

definition isUpper :: "char \<Rightarrow> bool" where
  "isUpper c = (65 \<le> code c \<and> code c \<le> 90)"

definition isHexDigit :: "char \<Rightarrow> bool" where
  "isHexDigit c = (isDigit c \<or> (97 \<le> code c \<and> code c \<le> 102) \<or> (65 \<le> code c \<and> code c \<le> 70))"

text \<open>The white space and line terminators of ECMAScript, as far as they are ASCII.\<close>

definition isLineTerminator :: "char \<Rightarrow> bool" where
  "isLineTerminator c = (code c = 10 \<or> code c = 13)"

definition isWhiteSpace :: "char \<Rightarrow> bool" where
  "isWhiteSpace c = (code c = 9 \<or> code c = 10 \<or> code c = 11 \<or> code c = 12 \<or> code c = 13 \<or> code c = 32)"

definition toLowerCase :: "char \<Rightarrow> char" where
  "toLowerCase c =
     (case map_of (zip ''ABCDEFGHIJKLMNOPQRSTUVWXYZ'' ''abcdefghijklmnopqrstuvwxyz'') c of
        None \<Rightarrow> c
      | Some l \<Rightarrow> l)"

definition toUpperCase :: "char \<Rightarrow> char" where
  "toUpperCase c =
     (case map_of (zip ''abcdefghijklmnopqrstuvwxyz'' ''ABCDEFGHIJKLMNOPQRSTUVWXYZ'') c of
        None \<Rightarrow> c
      | Some u \<Rightarrow> u)"

text \<open>\<^verbatim>\<open>s.startsWith(p)\<close>, \<^verbatim>\<open>s.endsWith(p)\<close> and \<^verbatim>\<open>s.substring(a, b)\<close> for \<open>a \<le> b\<close>.\<close>

definition startsWith :: "string \<Rightarrow> string \<Rightarrow> bool" where
  "startsWith s p = (take (length p) s = p)"

definition endsWith :: "string \<Rightarrow> string \<Rightarrow> bool" where
  "endsWith s p = (length p \<le> length s \<and> drop (length s - length p) s = p)"

definition substring :: "string \<Rightarrow> nat \<Rightarrow> nat \<Rightarrow> string" where
  "substring s a b = take (b - a) (drop a s)"

text \<open>\<^verbatim>\<open>s.padStart(n, "0")\<close>.\<close>

definition padStart0 :: "nat \<Rightarrow> string \<Rightarrow> string" where
  "padStart0 n s = replicate (n - length s) (CHR ''0'') @ s"

text \<open>
  A value that is a string or \<^verbatim>\<open>null\<close>/\<^verbatim>\<open>undefined\<close> is a \<^typ>\<open>string option\<close>. Where
  the code hands such a value to a regular expression or a template literal, the engine
  first converts it to a string.
\<close>

definition nullToString :: "string option \<Rightarrow> string" where
  "nullToString v = (case v of None \<Rightarrow> ''null'' | Some s \<Rightarrow> s)"

definition undefinedToString :: "string option \<Rightarrow> string" where
  "undefinedToString v = (case v of None \<Rightarrow> ''undefined'' | Some s \<Rightarrow> s)"

section \<open>Numbers\<close>

text \<open>
  A JavaScript Number is a binary64 value. The model keeps the three special values apart
  and gives a finite Number its mathematical value, a rational: arithmetic on finite
  values is exact, and the places where the engine leaves the finite numbers (a division by
  zero, a failed parse) are the branches below. On integers below \<open>2\<^sup>5\<^sup>3\<close> the engine is
  exact as well. Where it rounds, in the quotients of \<^verbatim>\<open>rgbToHsl\<close> and in the average of
  the hues, its error is a few units in the sixteenth digit: the difference of a number
  with itself is still zero, a comparison with an integer or a half still comes out the
  same, and \<^verbatim>\<open>Math.round\<close> gives the same integer unless the exact value lies that close to
  a half. The sign of a zero is not kept: no divisor of the program can be a negative zero,
  and a negative zero prints as \<^verbatim>\<open>0\<close>.
\<close>

datatype number = Num rat | NaN | Infinity | NegInfinity

fun js_add :: "number \<Rightarrow> number \<Rightarrow> number" where
  "js_add (Num a) (Num b) = Num (a + b)"
| "js_add NaN _ = NaN"
| "js_add _ NaN = NaN"
| "js_add Infinity NegInfinity = NaN"
| "js_add NegInfinity Infinity = NaN"
| "js_add Infinity _ = Infinity"
| "js_add _ Infinity = Infinity"
| "js_add NegInfinity _ = NegInfinity"
| "js_add _ NegInfinity = NegInfinity"

fun js_neg :: "number \<Rightarrow> number" where
  "js_neg (Num a) = Num (- a)"
| "js_neg NaN = NaN"
| "js_neg Infinity = NegInfinity"
| "js_neg NegInfinity = Infinity"

definition js_sub :: "number \<Rightarrow> number \<Rightarrow> number" where
  "js_sub a b = js_add a (js_neg b)"

definition signed_inf :: "bool \<Rightarrow> number" where
  "signed_inf negative = (if negative then NegInfinity else Infinity)"

fun js_sign :: "number \<Rightarrow> int" where
  "js_sign (Num a) = (if a < 0 then - 1 else if a = 0 then 0 else 1)"
| "js_sign Infinity = 1"
| "js_sign NegInfinity = - 1"
| "js_sign NaN = 0"

fun js_mul :: "number \<Rightarrow> number \<Rightarrow> number" where
  "js_mul (Num a) (Num b) = Num (a * b)"
| "js_mul NaN _ = NaN"
| "js_mul _ NaN = NaN"
| "js_mul a b =
     (if js_sign a * js_sign b = 0 then NaN else signed_inf (js_sign a * js_sign b < 0))"

fun js_div :: "number \<Rightarrow> number \<Rightarrow> number" where
  "js_div (Num a) (Num b) =
     (if b \<noteq> 0 then Num (a / b) else if a = 0 then NaN else signed_inf (a < 0))"
| "js_div NaN _ = NaN"
| "js_div _ NaN = NaN"
| "js_div (Num a) _ = Num 0"
| "js_div a (Num b) = signed_inf ((js_sign a < 0) \<noteq> (b < 0))"
| "js_div _ _ = NaN"

text \<open>The comparisons \<^verbatim>\<open><\<close>, \<^verbatim>\<open><=\<close>, \<^verbatim>\<open>>=\<close> and \<^verbatim>\<open>===\<close>: false whenever an operand is NaN.\<close>

fun js_lt :: "number \<Rightarrow> number \<Rightarrow> bool" where
  "js_lt (Num a) (Num b) = (a < b)"
| "js_lt NaN _ = False"
| "js_lt _ NaN = False"
| "js_lt _ NegInfinity = False"
| "js_lt Infinity _ = False"
| "js_lt _ _ = True"

definition js_eq :: "number \<Rightarrow> number \<Rightarrow> bool" where
  "js_eq a b = (a \<noteq> NaN \<and> a = b)"

definition js_le :: "number \<Rightarrow> number \<Rightarrow> bool" where
  "js_le a b = (js_lt a b \<or> js_eq a b)"

definition js_ge :: "number \<Rightarrow> number \<Rightarrow> bool" where
  "js_ge a b = js_le b a"

text \<open>\<^verbatim>\<open>Math.min\<close> and \<^verbatim>\<open>Math.max\<close> of three arguments, \<^verbatim>\<open>Math.abs\<close>, \<^verbatim>\<open>Math.round\<close>
  (halves go up).\<close>

definition min2 :: "number \<Rightarrow> number \<Rightarrow> number" where
  "min2 a b = (if a = NaN \<or> b = NaN then NaN else if js_lt b a then b else a)"

definition max2 :: "number \<Rightarrow> number \<Rightarrow> number" where
  "max2 a b = (if a = NaN \<or> b = NaN then NaN else if js_lt a b then b else a)"

definition Math_min :: "number \<Rightarrow> number \<Rightarrow> number \<Rightarrow> number" where
  "Math_min a b c = min2 (min2 a b) c"

definition Math_max :: "number \<Rightarrow> number \<Rightarrow> number \<Rightarrow> number" where
  "Math_max a b c = max2 (max2 a b) c"

fun Math_abs :: "number \<Rightarrow> number" where
  "Math_abs (Num a) = Num \<bar>a\<bar>"
| "Math_abs NaN = NaN"
| "Math_abs _ = Infinity"

fun Math_round :: "number \<Rightarrow> number" where
  "Math_round (Num a) = Num (of_int \<lfloor>a + 1 / 2\<rfloor>)"
| "Math_round x = x"

section \<open>Numbers and strings\<close>

subsection \<open>Printing\<close>

definition digitChar :: "nat \<Rightarrow> char" where
  "digitChar d = ''0123456789abcdefghijklmnopqrstuvwxyz'' ! d"

text \<open>The digits of a natural number, for a radix from 2 to 36.\<close>

fun showNat :: "nat \<Rightarrow> nat \<Rightarrow> string" where
  "showNat radix n =
     (if radix < 2 \<or> n < radix then [digitChar (n mod radix)]
      else showNat radix (n div radix) @ [digitChar (n mod radix)])"

declare showNat.simps [simp del]

fun fractionDigits :: "nat \<Rightarrow> nat \<Rightarrow> rat \<Rightarrow> string" where
  "fractionDigits radix k f =
     (if k = 0 \<or> f = 0 then []
      else digitChar (nat \<lfloor>f * of_nat radix\<rfloor>)
           # fractionDigits radix (k - 1) (f * of_nat radix - of_int \<lfloor>f * of_nat radix\<rfloor>))"

declare fractionDigits.simps [simp del]

text \<open>
  \<^verbatim>\<open>x.toString(radix)\<close>, which is also what a template literal does to a Number
  (\<open>radix = 10\<close>). An integer prints as its digits, with a minus sign when negative; the
  digits of a fraction are printed while they last. The program prints integers and
  tenths in base 10 and integers in base 16; for a fraction whose expansion does not end
  within 17 places, for integers from \<open>10\<^sup>2\<^sup>1\<close> on and for non-zero values below
  \<open>10\<^sup>-\<^sup>6\<close>, the engine's digits depend on the binary64 rounding or use the exponent
  notation, and are not modelled.
\<close>

fun toString :: "nat \<Rightarrow> number \<Rightarrow> string" where
  "toString radix NaN = ''NaN''"
| "toString radix Infinity = ''Infinity''"
| "toString radix NegInfinity = ''-Infinity''"
| "toString radix (Num q) =
     (if q < 0 then ''-'' else [])
     @ showNat radix (nat \<lfloor>\<bar>q\<bar>\<rfloor>)
     @ (if \<bar>q\<bar> = of_int \<lfloor>\<bar>q\<bar>\<rfloor> then []
        else ''.'' @ fractionDigits radix 17 (\<bar>q\<bar> - of_int \<lfloor>\<bar>q\<bar>\<rfloor>))"

subsection \<open>Parsing\<close>

definition digitValue :: "char \<Rightarrow> nat" where
  "digitValue c =
     (if isDigit c then code c - 48 else if isLower c then code c - 87 else code c - 55)"

text \<open>The value of a digit string, most significant digit first.\<close>

definition digitsValue :: "nat \<Rightarrow> string \<Rightarrow> nat" where
  "digitsValue radix ds = foldl (\<lambda>v c. v * radix + digitValue c) 0 ds"

definition stripSign :: "string \<Rightarrow> bool \<times> string" where
  "stripSign s =
     (case s of
        [] \<Rightarrow> (False, [])
      | c # cs \<Rightarrow> if c = CHR ''-'' then (True, cs) else if c = CHR ''+'' then (False, cs) else (False, s))"

definition signedNum :: "bool \<Rightarrow> rat \<Rightarrow> number" where
  "signedNum negative q = Num (if negative then - q else q)"

text \<open>
  \<^verbatim>\<open>parseInt(s, 16)\<close>: leading white space, a sign, a \<^verbatim>\<open>0x\<close> prefix, then the longest run of
  hexadecimal digits; NaN when the run is empty.
\<close>

definition parseInt16 :: "string \<Rightarrow> number" where
  "parseInt16 s =
     (let (negative, s1) = stripSign (dropWhile isWhiteSpace s);
          s2 = (if startsWith s1 ''0x'' \<or> startsWith s1 ''0X'' then drop 2 s1 else s1);
          z = takeWhile isHexDigit s2
      in if z = [] then NaN else signedNum negative (of_nat (digitsValue 16 z)))"

text \<open>
  \<^verbatim>\<open>Number(s)\<close> on a string: white space is trimmed at both ends; the empty string is 0; a
  literal with the prefix \<^verbatim>\<open>0x\<close>, \<^verbatim>\<open>0o\<close> or \<^verbatim>\<open>0b\<close> is an unsigned integer in that radix;
  otherwise an optional sign, then \<^verbatim>\<open>Infinity\<close> or decimal digits with an optional fraction
  and an optional exponent. Anything else is NaN.
\<close>

definition trim :: "string \<Rightarrow> string" where
  "trim s = rev (dropWhile isWhiteSpace (rev (dropWhile isWhiteSpace s)))"

definition radixLiteral :: "nat \<Rightarrow> string \<Rightarrow> number" where
  "radixLiteral radix ds =
     (if ds \<noteq> [] \<and> list_all (\<lambda>c. isHexDigit c \<and> digitValue c < radix) ds
      then Num (of_nat (digitsValue radix ds)) else NaN)"

definition exponentPart :: "string \<Rightarrow> int option" where
  "exponentPart s =
     (case s of
        [] \<Rightarrow> Some 0
      | c # cs \<Rightarrow>
          if c = CHR ''e'' \<or> c = CHR ''E'' then
            (let (negative, ds) = stripSign cs
             in if ds \<noteq> [] \<and> list_all isDigit ds
                then Some (if negative then - int (digitsValue 10 ds) else int (digitsValue 10 ds))
                else None)
          else None)"

definition scale10 :: "rat \<Rightarrow> int \<Rightarrow> rat" where
  "scale10 q e = (if 0 \<le> e then q * 10 ^ nat e else q / 10 ^ nat (- e))"

definition decimalLiteral :: "string \<Rightarrow> number" where
  "decimalLiteral s =
     (let (negative, s1) = stripSign s
      in if s1 = ''Infinity'' then signed_inf negative
         else
           (let ip = takeWhile isDigit s1;
                r1 = dropWhile isDigit s1;
                fp = (if startsWith r1 ''.'' then takeWhile isDigit (drop 1 r1) else []);
                r2 = (if startsWith r1 ''.'' then dropWhile isDigit (drop 1 r1) else r1)
            in if ip = [] \<and> fp = [] then NaN
               else
                 (case exponentPart r2 of
                    None \<Rightarrow> NaN
                  | Some e \<Rightarrow>
                      signedNum negative
                        (scale10 (of_nat (digitsValue 10 ip)
                                  + of_nat (digitsValue 10 fp) / 10 ^ length fp) e))))"

definition Number_js :: "string \<Rightarrow> number" where
  "Number_js s =
     (let t = trim s
      in if t = [] then Num 0
         else if startsWith t ''0x'' \<or> startsWith t ''0X'' then radixLiteral 16 (drop 2 t)
         else if startsWith t ''0o'' \<or> startsWith t ''0O'' then radixLiteral 8 (drop 2 t)
         else if startsWith t ''0b'' \<or> startsWith t ''0B'' then radixLiteral 2 (drop 2 t)
         else decimalLiteral t)"

text \<open>\<^verbatim>\<open>Number(v)\<close> where \<open>v\<close> may be \<^verbatim>\<open>undefined\<close>, which gives NaN.\<close>

definition Number_opt :: "string option \<Rightarrow> number" where
  "Number_opt v = (case v of None \<Rightarrow> NaN | Some s \<Rightarrow> Number_js s)"

section \<open>Regular expressions of the program\<close>

text \<open>
  Each regular expression of the source is written out as the function on strings that
  it denotes. The pieces: a literal to be read next, a run of decimal digits (a greedy
  \<^verbatim>\<open>\d+\<close> or \<^verbatim>\<open>\d{1,3}\<close> in front of a literal that is not a digit takes the whole run
  or fails), and a lazy \<^verbatim>\<open>.*?\<close>, which grows one character at a time, never over a line
  terminator, until the rest of the pattern matches.
\<close>

definition lit :: "string \<Rightarrow> string \<Rightarrow> string option" where
  "lit p s = (if startsWith s p then Some (drop (length p) s) else None)"

definition digitRun :: "nat \<Rightarrow> string \<Rightarrow> (string \<times> string) option" where
  "digitRun most s =
     (let ds = takeWhile isDigit s
      in if 1 \<le> length ds \<and> length ds \<le> most then Some (ds, dropWhile isDigit s) else None)"

text \<open>\<^verbatim>\<open>\d+\<close>\<close>

definition digits1 :: "string \<Rightarrow> (string \<times> string) option" where
  "digits1 s = digitRun (length s) s"

text \<open>\<^verbatim>\<open>\d+(?:\.\d+)?\<close> in front of \<^verbatim>\<open>%\<close>.\<close>

definition decimal1 :: "string \<Rightarrow> (string \<times> string) option" where
  "decimal1 s =
     do {
       (ip, r) \<leftarrow> digits1 s;
       if startsWith r ''.'' then
         do { (fp, r') \<leftarrow> digits1 (drop 1 r); Some (ip @ ''.'' @ fp, r') }
       else Some (ip, r)
     }"

text \<open>
  \<^verbatim>\<open>(.*?)-\<close> and \<^verbatim>\<open>(.*?)-\d\<close>: the captured text ends before the first \<^verbatim>\<open>-\<close> (that a digit
  follows, when \<open>digit\<close> is set).
\<close>

fun lazyUntilDash :: "bool \<Rightarrow> string \<Rightarrow> string \<Rightarrow> string option" where
  "lazyUntilDash digit acc [] = None"
| "lazyUntilDash digit acc (c # cs) =
     (if c = CHR ''-'' \<and> (\<not> digit \<or> (cs \<noteq> [] \<and> isDigit (hd cs))) then Some (rev acc)
      else if isLineTerminator c then None
      else lazyUntilDash digit (c # acc) cs)"

section \<open>Colour conversions (\<^verbatim>\<open>src/util.js\<close>)\<close>

subsection \<open>\<^verbatim>\<open>hexToRgb\<close>\<close>

text \<open>\<^verbatim>\<open>hex.replace(/[a-z0-9]/gi, "$&$&")\<close>: every letter and digit is doubled.\<close>

definition expandHex :: "string \<Rightarrow> string" where
  "expandHex hex =
     concat (map (\<lambda>c. if isLower c \<or> isUpper c \<or> isDigit c then [c, c] else [c]) hex)"

definition hexToRgb :: "string \<Rightarrow> string" where
  "hexToRgb hex =
     (if \<not> startsWith hex ''#'' then hex
      else
        (let hex6 = (if length hex = 4 then expandHex hex else hex);
             r = parseInt16 (substring hex6 1 3);
             g = parseInt16 (substring hex6 3 5);
             b = parseInt16 (substring hex6 5 7)
         in ''rgb('' @ toString 10 r @ '' '' @ toString 10 g @ '' '' @ toString 10 b @ '')''))"

subsection \<open>\<^verbatim>\<open>parseRgba\<close> and \<^verbatim>\<open>rgbaToHex8\<close>\<close>

text \<open>The object \<^verbatim>\<open>{ r, g, b, a }\<close>.\<close>

datatype rgba = Rgba number number number number

text \<open>
  \<^verbatim>\<open>/^(rgba?)\((.*?)\)$/\<close>: the name, an opening parenthesis, and the arguments up to the
  closing parenthesis that ends the string.
\<close>

definition matchRgba :: "string \<Rightarrow> (string \<times> string) option" where
  "matchRgba s =
     (let name = (if startsWith s ''rgba('' then ''rgba'' else ''rgb'')
      in do {
           rest \<leftarrow> lit (name @ ''('') s;
           if rest \<noteq> [] \<and> last rest = CHR '')'' \<and> \<not> list_ex isLineTerminator (butlast rest)
           then Some (name, butlast rest) else None
         })"

text \<open>\<^verbatim>\<open>args.split(/[ ,/]/)\<close>\<close>

fun split :: "string \<Rightarrow> string \<Rightarrow> string list" where
  "split cur [] = [rev cur]"
| "split cur (c # cs) =
     (if c = CHR '' '' \<or> c = CHR '','' \<or> c = CHR ''/'' then rev cur # split [] cs
      else split (c # cur) cs)"

definition parseRgba :: "string \<Rightarrow> rgba option" where
  "parseRgba rgbOrRgbaString =
     (case matchRgba rgbOrRgbaString of
        None \<Rightarrow> None
      | Some (name, args) \<Rightarrow>
          (let tokens = filter (\<lambda>t. t \<noteq> []) (split [] args)
           in if length tokens < 3 then None
              else Some (Rgba (Number_js (tokens ! 0)) (Number_js (tokens ! 1))
                          (Number_js (tokens ! 2))
                          (if 3 < length tokens then Number_js (tokens ! 3) else Num 1))))"

fun rgbaToHex8 :: "rgba \<Rightarrow> string" where
  "rgbaToHex8 (Rgba r g b a) =
     (let a = Math_round (js_mul a (Num 255))
      in ''#'' @ concat (map (\<lambda>v. padStart0 2 (toString 16 v)) [r, g, b, a]))"

declare rgbaToHex8.simps [simp del]

subsection \<open>\<^verbatim>\<open>rgbToHsl\<close>\<close>

text \<open>\<^verbatim>\<open>/^rgb\((\d{1,3}) (\d{1,3}) (\d{1,3})\)$/\<close>\<close>

definition matchRgb :: "string \<Rightarrow> (string \<times> string \<times> string) option" where
  "matchRgb s =
     do {
       s1 \<leftarrow> lit ''rgb('' s;
       (r, s2) \<leftarrow> digitRun 3 s1;
       s3 \<leftarrow> lit '' '' s2;
       (g, s4) \<leftarrow> digitRun 3 s3;
       s5 \<leftarrow> lit '' '' s4;
       (b, s6) \<leftarrow> digitRun 3 s5;
       if s6 = '')'' then Some (r, g, b) else None
     }"

text \<open>
  The body of \<^verbatim>\<open>rgbToHsl\<close> between the match and the rounding, which the two versions of
  the function share: the hue \<open>h\<close>, the saturation \<open>s\<close> and the lightness \<open>l\<close>. The source
  leaves \<open>h\<close> undefined when no branch of its chain applies; an undefined \<open>h\<close> fails the
  test \<^verbatim>\<open>h < 0\<close> and rounds to NaN, as NaN does.
\<close>

definition hslOfRgb :: "string \<Rightarrow> string \<Rightarrow> string \<Rightarrow> number \<times> number \<times> number" where
  "hslOfRgb r0 g0 b0 =
     (let r = js_div (Number_js r0) (Num 255);
          g = js_div (Number_js g0) (Num 255);
          b = js_div (Number_js b0) (Num 255);
          min = Math_min r g b;
          max = Math_max r g b;
          l = js_div (js_add min max) (Num 2);
          s = (if js_le l (Num (1 / 2)) then js_div (js_sub max min) (js_add max min)
               else js_div (js_sub max min) (js_sub (js_sub (Num 2) max) min));
          h = (if js_eq max min then Num 0
               else if js_eq max r then js_mul (Num 60) (js_div (js_sub g b) (js_sub max min))
               else if js_eq max g then
                 js_add (js_mul (Num 60) (js_div (js_sub b r) (js_sub max min))) (Num 120)
               else if js_eq max b then
                 js_add (js_mul (Num 60) (js_div (js_sub r g) (js_sub max min))) (Num 240)
               else NaN);
          h = (if js_lt h (Num 0) then js_add h (Num 360) else h)
      in (h, s, l))"

text \<open>The version of \<^verbatim>\<open>src/util.js\<close>: percentages rounded to a tenth.\<close>

definition rgbToHsl :: "string \<Rightarrow> string" where
  "rgbToHsl rgb =
     (case matchRgb rgb of
        None \<Rightarrow> rgb
      | Some (r0, g0, b0) \<Rightarrow>
          (let (h, s, l) = hslOfRgb r0 g0 b0;
               hsl_h = Math_round h;
               hsl_s = js_div (Math_round (js_mul s (Num 1000))) (Num 10);
               hsl_l = js_div (Math_round (js_mul l (Num 1000))) (Num 10)
           in ''hsl('' @ toString 10 hsl_h @ ''deg '' @ toString 10 hsl_s @ ''% ''
              @ toString 10 hsl_l @ ''%)''))"

text \<open>The version of \<^verbatim>\<open>src/unnamed/part_000\<close>: percentages rounded to an integer.\<close>

definition rgbToHsl_part_000 :: "string \<Rightarrow> string" where
  "rgbToHsl_part_000 rgb =
     (case matchRgb rgb of
        None \<Rightarrow> rgb
      | Some (r0, g0, b0) \<Rightarrow>
          (let (h, s, l) = hslOfRgb r0 g0 b0;
               hsl_h = Math_round h;
               hsl_s = Math_round (js_mul s (Num 100));
               hsl_l = Math_round (js_mul l (Num 100))
           in ''hsl('' @ toString 10 hsl_h @ ''deg '' @ toString 10 hsl_s @ ''% ''
              @ toString 10 hsl_l @ ''%)''))"

section \<open>Stylesheets and property names (\<^verbatim>\<open>src/util.js\<close>, \<^verbatim>\<open>src/unnamed/part_000\<close>)\<close>

text \<open>
  What the program reads of the page: \<^verbatim>\<open>document.styleSheets\<close> is a list of sheets, each
  with an \<^verbatim>\<open>href\<close> (\<^verbatim>\<open>null\<close> for an inline sheet) and its rules; a rule has a style
  declaration or none (an at-rule such as \<^verbatim>\<open>@import\<close>), and \<^verbatim>\<open>Object.values\<close> of a style
  declaration lists the declared property names in source order.
\<close>

datatype cssRule = CssRule (style: "string list option")

datatype styleSheet = StyleSheet (href: "string option") (cssRules: "cssRule list")

text \<open>
  An exception is a value: the \<^verbatim>\<open>Error\<close> the program throws itself, with its message,
  and the \<^verbatim>\<open>TypeError\<close> the engine throws when a property of \<^verbatim>\<open>undefined\<close> or \<^verbatim>\<open>null\<close>
  is read.
\<close>

datatype exn = Error string | TypeError

definition hrefMatches :: "string \<Rightarrow> styleSheet \<Rightarrow> bool" where
  "hrefMatches cssPath sheet =
     (case href sheet of None \<Rightarrow> False | Some h \<Rightarrow> endsWith h (''/'' @ cssPath))"

text \<open>
  \<^verbatim>\<open>getCssPropertyNames\<close>, the same function in both files. The loop with its \<^verbatim>\<open>break\<close>
  keeps the first sheet that matches.
\<close>

definition getCssPropertyNames :: "styleSheet list \<Rightarrow> string \<Rightarrow> exn + string list" where
  "getCssPropertyNames styleSheets cssPath =
     (case find (hrefMatches cssPath) styleSheets of
        None \<Rightarrow> Inl (Error ''No style sheet found'')
      | Some sheet \<Rightarrow>
          (case cssRules sheet of
             [] \<Rightarrow> Inl TypeError
           | rule # _ \<Rightarrow>
               (case style rule of
                  None \<Rightarrow> Inl TypeError
                | Some properties \<Rightarrow> Inr (filter (\<lambda>property. startsWith property ''--'') properties))))"

text \<open>\<^verbatim>\<open>getCssPath\<close>: \<^verbatim>\<open>/^\?css=(.*)$/\<close> on the query string, with the default theme.\<close>

definition getCssPath :: "string \<Rightarrow> string" where
  "getCssPath search =
     (case lit ''?css='' search of
        None \<Rightarrow> ''themes/hex.css''
      | Some path \<Rightarrow> if list_ex isLineTerminator path then ''themes/hex.css'' else path)"

text \<open>\<^verbatim>\<open>extractColorName\<close> (\<^verbatim>\<open>getPrefix\<close> in \<^verbatim>\<open>src/iframe.js\<close>): \<^verbatim>\<open>/^--dh-color-(.*?)-/\<close>\<close>

definition extractColorName :: "string \<Rightarrow> string option" where
  "extractColorName property =
     (case lit ''--dh-color-'' property of
        None \<Rightarrow> None
      | Some rest \<Rightarrow> lazyUntilDash False [] rest)"

section \<open>The swatch builder\<close>

text \<open>
  A swatch is a \<^verbatim>\<open>div\<close> element; the record keeps the attributes the program assigns. A
  fresh element has the empty string everywhere, as in the DOM. The container is the list
  of its children, and \<^verbatim>\<open>appendChild\<close> adds at the end.
\<close>

record element =
  className :: string
  innerHTML :: string
  innerText :: string
  marginTop :: string
  backgroundColor :: string
  color :: string
  title :: string

definition createElement :: element where
  "createElement =
     \<lparr> className = [], innerHTML = [], innerText = [], marginTop = [],
       backgroundColor = [], color = [], title = [] \<rparr>"

text \<open>
  What the style engine computes is given from outside: the value of a custom property
  on a swatch, and the computed \<^verbatim>\<open>background-color\<close> of a swatch whose inline declaration
  is the given text.
\<close>

record computedStyle =
  getPropertyValue :: "string \<Rightarrow> string"
  getBackgroundColor :: "string \<Rightarrow> string"

text \<open>
  The state of the loop: the children of the container and the variable
  \<^verbatim>\<open>prevProperty\<close>. A step returns the state it leaves and the exception it throws, if any:
  an exception in the callback ends \<^verbatim>\<open>forEach\<close>, and what was appended stays in the page.
\<close>

record swatches =
  children :: "element list"
  prevProperty :: "string option"

text \<open>\<^verbatim>\<open>/-(\d+)$/.exec(property)?.[1]\<close>: the digits after the last \<^verbatim>\<open>-\<close>, when digits end the name.\<close>

definition matchColorWeight :: "string \<Rightarrow> string option" where
  "matchColorWeight property =
     (let ds = rev (takeWhile isDigit (rev property));
          front = rev (dropWhile isDigit (rev property))
      in if ds \<noteq> [] \<and> front \<noteq> [] \<and> last front = CHR ''-'' then Some ds else None)"

text \<open>\<^verbatim>\<open>property.replace(/-hsl$/, "")\<close>\<close>

definition removeHslSuffix :: "string \<Rightarrow> string" where
  "removeHslSuffix property =
     (if endsWith property ''-hsl'' then take (length property - 4) property else property)"

text \<open>The spacing test, the same in every version of the builder.\<close>

definition newFamily :: "nat \<Rightarrow> string \<Rightarrow> string option \<Rightarrow> bool" where
  "newFamily i property prev =
     (i > 0 \<and> extractColorName property \<noteq> extractColorName (nullToString prev)
      \<and> \<not> endsWith (nullToString prev) ''-hue'')"

subsection \<open>\<^verbatim>\<open>buildSwatches\<close> of \<^verbatim>\<open>src/util.js\<close>\<close>

definition swatchLabel :: "string \<Rightarrow> string \<Rightarrow> string" where
  \<open>swatchLabel property colorValue =
     (let hslColorValue = rgbToHsl (hexToRgb colorValue);
          isHex = (colorValue \<noteq> hslColorValue);
          isLabel = endsWith property ''-label''
      in property @ '': '' @
         (if \<not> isHex \<and> \<not> isLabel then colorValue
          else colorValue @ '' <span title="HSL based on original HEX color">'' @
               (if isLabel then ''HSL derived from hex'' else hslColorValue) @ ''</span>''))\<close>

definition textColor :: "string \<Rightarrow> string" where
  "textColor property =
     (let colorWeight = matchColorWeight property
      in if colorWeight = None \<or> js_lt (Number_opt colorWeight) (Num 700)
         then ''var(--dh-color-gray-800)'' else ''var(--dh-color-gray-75)'')"

definition buildSwatch ::
  "computedStyle \<Rightarrow> nat \<Rightarrow> string \<Rightarrow> swatches \<Rightarrow> swatches \<times> exn option" where
  "buildSwatch cs i property st =
     (if endsWith property ''-hsl'' then (st, None)
      else
        (let divEl = createElement \<lparr> className := ''swatch'' \<rparr>;
             divEl = divEl \<lparr> innerHTML := swatchLabel property (getPropertyValue cs property) \<rparr>;
             divEl = (if newFamily i property (prevProperty st)
                    then divEl \<lparr> marginTop := ''40px'' \<rparr> else divEl)
         in if endsWith property ''-hue''
            then (\<lparr> children = children st @ [divEl], prevProperty = Some property \<rparr>, None)
            else
              (let bgColor = ''var('' @ removeHslSuffix property @ '')'';
                   divEl = divEl \<lparr> backgroundColor := bgColor, color := textColor property \<rparr>
               in case parseRgba (getBackgroundColor cs bgColor) of
                    None \<Rightarrow>
                      (\<lparr> children = children st @ [divEl], prevProperty = prevProperty st \<rparr>,
                       Some TypeError)
                  | Some c \<Rightarrow>
                      (\<lparr> children = children st @ [divEl \<lparr> title := substring (rgbaToHex8 c) 0 7 \<rparr>],
                         prevProperty = Some property \<rparr>, None))))"

text \<open>\<^verbatim>\<open>cssPropertyNames.forEach((property, i) => ...)\<close> from index \<open>i\<close> on.\<close>

fun forEachSwatch ::
  "(nat \<Rightarrow> string \<Rightarrow> swatches \<Rightarrow> swatches \<times> exn option) \<Rightarrow> nat \<Rightarrow> string list \<Rightarrow> swatches
   \<Rightarrow> swatches \<times> exn option" where
  "forEachSwatch step i [] st = (st, None)"
| "forEachSwatch step i (property # rest) st =
     (case snd (step i property st) of
        Some e \<Rightarrow> (fst (step i property st), Some e)
      | None \<Rightarrow> forEachSwatch step (Suc i) rest (fst (step i property st)))"

text \<open>
  \<^verbatim>\<open>buildSwatches(containerEl, cssPropertyNames)\<close>: the children of the container afterwards,
  and the exception that ended the call, if any.
\<close>

definition buildSwatches ::
  "computedStyle \<Rightarrow> element list \<Rightarrow> string list \<Rightarrow> element list \<times> exn option" where
  "buildSwatches cs containerEl cssPropertyNames =
     (let done = forEachSwatch (buildSwatch cs) 0 cssPropertyNames
                   \<lparr> children = containerEl, prevProperty = None \<rparr>
      in (children (fst done), snd done))"

subsection \<open>The loop of \<^verbatim>\<open>src/iframe.js\<close>\<close>

definition iframe_textColor :: "string \<Rightarrow> string" where
  "iframe_textColor property =
     (let colorWeight = matchColorWeight property
      in if colorWeight = None \<or> js_ge (Number_opt colorWeight) (Num 700)
         then ''var(--dh-color-gray-75)'' else ''var(--dh-color-gray-800)'')"

definition iframe_swatch ::
  "computedStyle \<Rightarrow> nat \<Rightarrow> string \<Rightarrow> swatches \<Rightarrow> swatches \<times> exn option" where
  "iframe_swatch cs i property st =
     (let divEl = createElement \<lparr> className := ''swatch'' \<rparr>;
          divEl = divEl \<lparr> innerText := property @ '': '' @ getPropertyValue cs property \<rparr>;
          divEl = (if newFamily i property (prevProperty st)
                 then divEl \<lparr> marginTop := ''40px'' \<rparr> else divEl);
          divEl = (if endsWith property ''-hue'' then divEl
                 else divEl \<lparr> backgroundColor := ''var('' @ property @ '')'',
                            color := iframe_textColor property \<rparr>)
      in (\<lparr> children = children st @ [divEl], prevProperty = Some property \<rparr>, None))"

definition iframe_swatches ::
  "computedStyle \<Rightarrow> element list \<Rightarrow> string list \<Rightarrow> element list \<times> exn option" where
  "iframe_swatches cs containerEl cssProperties =
     (let done = forEachSwatch (iframe_swatch cs) 0 cssProperties
                   \<lparr> children = containerEl, prevProperty = None \<rparr>
      in (children (fst done), snd done))"

section \<open>The HSL range generator (\<^verbatim>\<open>generateHSLRanges\<close>, \<^verbatim>\<open>src/util.js\<close>)\<close>

text \<open>
  An object is the list of its entries in the order in which \<^verbatim>\<open>Object.keys\<close>,
  \<^verbatim>\<open>Object.entries\<close> and \<^verbatim>\<open>for ... in\<close> visit them: keys that are array indices first, in
  ascending order, then the other keys in the order of their creation. Assigning to a key
  that exists keeps its place. Colour names that are members of \<^verbatim>\<open>Object.prototype\<close>
  (\<^verbatim>\<open>constructor\<close>, \<^verbatim>\<open>toString\<close>, ...) would be found on the prototype by the test
  \<^verbatim>\<open>colorGroups[colorName] == null\<close>; such names do not occur in a theme and are not modelled.
\<close>

type_synonym 'v object = "(string \<times> 'v) list"





text \<open>\<^verbatim>\<open>/^hsl\((\d+)deg (\d+(?:\.\d+)?)% (\d+(?:\.\d+)?)%\)$/\<close>\<close>

definition extractHsl :: "string \<Rightarrow> (string \<times> string \<times> string) option" where
  "extractHsl hsl =
     do {
       s1 \<leftarrow> lit ''hsl('' hsl;
       (h, s2) \<leftarrow> digits1 s1;
       s3 \<leftarrow> lit ''deg '' s2;
       (s, s4) \<leftarrow> decimal1 s3;
       s5 \<leftarrow> lit ''% '' s4;
       (l, s6) \<leftarrow> decimal1 s5;
       if s6 = ''%)'' then Some (h, s, l) else None
     }"



text \<open>
  The body of the second loop, for one colour. \<open>hueOf hsl\<close> is
  \<^verbatim>\<open>Number(extractHsl.exec(hsl)?.[1])\<close>.
\<close>

definition hueOf :: "string \<Rightarrow> number" where
  "hueOf hsl = Number_opt (map_option fst (extractHsl hsl))"

definition hueAvg :: "string \<Rightarrow> string list \<Rightarrow> number" where
  "hueAvg colorName hslColors =
     (if colorName = ''grayx'' then Num 0
      else Math_round
             (js_div (foldl (\<lambda>total hsl. js_add total (hueOf hsl)) (Num 0) hslColors)
                (Num (of_nat (length hslColors)))))"

text \<open>The value of the declaration \<^verbatim>\<open><property>-hsl\<close> of one shade.\<close>

definition hslOffset :: "string \<Rightarrow> number \<Rightarrow> string \<Rightarrow> string" where
  "hslOffset colorName avg hsl =
     (let m = extractHsl hsl;
          s = undefinedToString (map_option (\<lambda>m. fst (snd m)) m);
          l = undefinedToString (map_option (\<lambda>m. snd (snd m)) m);
          offset = (if colorName = ''grayx'' then Num 0 else js_sub (hueOf hsl) avg);
          sign = (if js_ge offset (Num 0) then ''+'' else ''-'')
      in if js_eq offset (Num 0)
         then ''var(--dh-color-'' @ colorName @ ''-hue), '' @ s @ ''%, '' @ l @ ''%''
         else ''calc(var(--dh-color-'' @ colorName @ ''-hue) '' @ sign @ '' ''
              @ toString 10 (Math_abs offset) @ ''deg), '' @ s @ ''%, '' @ l @ ''%'')"

text \<open>
  The three objects the loop fills for one colour. The keys of the inner objects are the
  property names of the colour (with the suffix \<^verbatim>\<open>-hsl\<close>), which are distinct and start
  with \<^verbatim>\<open>--\<close>, so the entries stand in the order of the shades.
\<close>

record family =
  baseHue :: "string object"
  hslGroup :: "string object"
  colorGroup :: "string object"

definition familyRanges :: "string \<Rightarrow> string object \<Rightarrow> family" where
  "familyRanges colorName members =
     (let colorPropNames = map fst members;
          hslColors = map (\<lambda>hex. rgbToHsl (hexToRgb hex)) (map snd members);
          avg = hueAvg colorName hslColors
      in \<lparr> baseHue = [(''--dh-color-'' @ colorName @ ''-hue'', toString 10 avg @ ''deg'')],
           hslGroup = map2 (\<lambda>name hsl. (name @ ''-hsl'', hslOffset colorName avg hsl))
                        colorPropNames hslColors,
           colorGroup = map (\<lambda>name. (name, ''hsl(var('' @ name @ ''-hsl))'')) colorPropNames \<rparr>)"







section \<open>The average hue, in the words of the specification\<close>



section \<open>Sample inputs\<close>

text \<open>A computed style in which every custom property is one blue.\<close>

definition cs0 :: computedStyle where
  "cs0 = \<lparr> getPropertyValue = (\<lambda>property. ''#1f5fd3''),
           getBackgroundColor = (\<lambda>bgColor. ''rgb(31, 95, 211)'') \<rparr>"




section \<open>Evaluation and arithmetic\<close>

text \<open>
  The floor of a quotient of numerals, and the unfolding rules with which the simplifier
  runs the model on a concrete input.
\<close>

lemma floor_rat_numeral [simp]: "\<lfloor>numeral a / numeral b :: rat\<rfloor> = numeral a div numeral b"
  by (metis floor_divide_of_int_eq of_int_numeral)

lemma floor_rat_neg_numeral [simp]:
  "\<lfloor>- (numeral a / numeral b) :: rat\<rfloor> = - numeral a div numeral b"
  by (metis divide_minus_left floor_divide_of_int_eq of_int_neg_numeral of_int_numeral)

lemma floor_rat_one_numeral [simp]: "\<lfloor>1 / numeral b :: rat\<rfloor> = 1 div numeral b"
  by (metis floor_divide_of_int_eq of_int_numeral of_int_1)

lemma floor_rat_neg_one_numeral [simp]: "\<lfloor>- (1 / numeral b) :: rat\<rfloor> = - 1 div numeral b"
  by (metis divide_minus_left floor_divide_of_int_eq of_int_numeral of_int_1 of_int_minus)

lemmas char_ev = code_def isDigit_def isLower_def isUpper_def isHexDigit_def isLineTerminator_def
  isWhiteSpace_def toLowerCase_def toUpperCase_def
lemmas str_ev = startsWith_def endsWith_def substring_def padStart0_def lit_def digitRun_def
  digits1_def decimal1_def nullToString_def undefinedToString_def
lemmas num_ev = js_sub_def signed_inf_def js_eq_def js_le_def js_ge_def min2_def max2_def
  Math_min_def Math_max_def
lemmas print_ev = digitChar_def showNat.simps fractionDigits.simps
lemmas parse_ev = digitValue_def digitsValue_def stripSign_def signedNum_def parseInt16_def
  trim_def radixLiteral_def exponentPart_def scale10_def decimalLiteral_def Number_js_def
  Number_opt_def
lemmas ev = char_ev str_ev num_ev print_ev parse_ev Let_def

subsection \<open>Lists\<close>

lemma find_first_match:
  "\<not> list_ex P before \<Longrightarrow> P x \<Longrightarrow> find P (before @ x # after) = Some x"
  by (induction before) auto

lemma find_no_match: "\<not> list_ex P xs \<Longrightarrow> find P xs = None"
  by (induction xs) auto

subsection \<open>Digits\<close>

lemma isDigit_not_space: "isDigit c \<Longrightarrow> \<not> isWhiteSpace c"
  by (auto simp: isDigit_def isWhiteSpace_def)

lemma isDigit_not_line: "isDigit c \<Longrightarrow> \<not> isLineTerminator c"
  by (auto simp: isDigit_def isLineTerminator_def)

lemma isDigit_digitChar: "d < 10 \<Longrightarrow> isDigit (digitChar d)"
proof -
  assume "d < 10"
  then have "d \<in> {0,1,2,3,4,5,6,7,8,9}" by auto
  then show ?thesis by (auto simp: digitChar_def isDigit_def code_def)
qed

lemma digitValue_digitChar: "d < 10 \<Longrightarrow> digitValue (digitChar d) = d"
proof -
  assume "d < 10"
  then have "d \<in> {0,1,2,3,4,5,6,7,8,9}" by auto
  then show ?thesis by (auto simp: digitChar_def digitValue_def isDigit_def code_def)
qed

lemma showNat_digits: "list_all isDigit (showNat 10 n)"
proof (induction n rule: less_induct)
  case (less n)
  show ?case
  proof (cases "n < 10")
    case True
    then show ?thesis by (simp add: showNat.simps [of 10 n] isDigit_digitChar)
  next
    case False
    then have "n div 10 < n" by simp
    with less False show ?thesis
      by (simp add: showNat.simps [of 10 n] isDigit_digitChar)
  qed
qed

lemma showNat_nonempty: "showNat radix n \<noteq> []"
  by (subst showNat.simps) simp

lemma digitsValue_snoc: "digitsValue radix (ds @ [c]) = digitsValue radix ds * radix + digitValue c"
  by (simp add: digitsValue_def)

lemma digitsValue_showNat: "digitsValue 10 (showNat 10 n) = n"
proof (induction n rule: less_induct)
  case (less n)
  show ?case
  proof (cases "n < 10")
    case True
    then show ?thesis
      by (simp add: showNat.simps [of 10 n] digitValue_digitChar digitsValue_def)
  next
    case False
    then have "n div 10 < n" by simp
    with less False show ?thesis
      by (simp add: showNat.simps [of 10 n] digitsValue_snoc digitValue_digitChar)
  qed
qed

subsection \<open>\<^verbatim>\<open>Number\<close> on a digit string\<close>

lemma trim_id:
  assumes "s \<noteq> []" "\<not> isWhiteSpace (hd s)" "\<not> isWhiteSpace (last s)"
  shows "trim s = s"
proof -
  from assms have 1: "dropWhile isWhiteSpace s = s"
    by (cases s) auto
  from assms have "dropWhile isWhiteSpace (rev s) = rev s"
    by (cases "rev s") (auto simp: last_rev [symmetric] simp del: last_rev) 
  with 1 show ?thesis by (simp add: trim_def)
qed

lemma not_startsWith_digits:
  "list_all isDigit ds \<Longrightarrow> \<not> isDigit c2 \<Longrightarrow> \<not> startsWith ds [c1, c2]"
  by (cases ds; cases "tl ds") (auto simp: startsWith_def)

lemma takeWhile_all: "list_all P xs \<Longrightarrow> takeWhile P xs = xs"
  by (induction xs) auto

lemma dropWhile_all: "list_all P xs \<Longrightarrow> dropWhile P xs = []"
  by (induction xs) auto

lemma Number_js_digits:
  assumes "ds \<noteq> []" "list_all isDigit ds"
  shows "Number_js ds = Num (of_nat (digitsValue 10 ds))"
proof -
  from assms obtain c cs where ds: "ds = c # cs" and c: "isDigit c"
    by (cases ds) auto
  from assms have l: "isDigit (last ds)" by (induction ds) auto
  have t: "trim ds = ds"
    using assms c l by (intro trim_id) (auto simp: ds isDigit_not_space)
  have x: "\<not> startsWith ds ''0x''" "\<not> startsWith ds ''0X''" "\<not> startsWith ds ''0o''"
    "\<not> startsWith ds ''0O''" "\<not> startsWith ds ''0b''" "\<not> startsWith ds ''0B''"
  proof -
    have nd: "\<not> isDigit (CHR ''x'')" "\<not> isDigit (CHR ''X'')" "\<not> isDigit (CHR ''o'')"
      "\<not> isDigit (CHR ''O'')" "\<not> isDigit (CHR ''b'')" "\<not> isDigit (CHR ''B'')"
      by (simp_all add: isDigit_def code_def)
    show "\<not> startsWith ds ''0x''" "\<not> startsWith ds ''0X''" "\<not> startsWith ds ''0o''"
      "\<not> startsWith ds ''0O''" "\<not> startsWith ds ''0b''" "\<not> startsWith ds ''0B''"
      using assms(2) nd by (simp_all add: not_startsWith_digits)
  qed
  have s: "stripSign ds = (False, ds)"
    using c by (auto simp: stripSign_def ds isDigit_def code_def)
  have i: "ds \<noteq> ''Infinity''"
    using c by (auto simp: ds isDigit_def code_def)
  have d: "decimalLiteral ds = Num (of_nat (digitsValue 10 ds))"
    using assms i
    by (simp add: decimalLiteral_def s takeWhile_all dropWhile_all startsWith_def
        exponentPart_def signedNum_def scale10_def digitsValue_def)
  show ?thesis
    using assms(1) by (simp add: Number_js_def t x d)
qed

lemma Number_js_showNat: "Number_js (showNat 10 n) = Num (of_nat n)"
  by (simp add: Number_js_digits showNat_nonempty showNat_digits digitsValue_showNat)

lemma toString_nat: "toString radix (Num (of_nat n)) = showNat radix n"
  by simp

subsection \<open>Suffixes of property names\<close>

lemma endsWith_last: "endsWith s p \<Longrightarrow> p \<noteq> [] \<Longrightarrow> last s = last p"
  by (metis endsWith_def append_take_drop_id last_appendR)

lemma takeWhile_run: "list_all P xs \<Longrightarrow> \<not> P y \<Longrightarrow> takeWhile P (xs @ y # ys) = xs"
  by (induction xs) auto

lemma dropWhile_run: "list_all P xs \<Longrightarrow> \<not> P y \<Longrightarrow> dropWhile P (xs @ y # ys) = y # ys"
  by (induction xs) auto

lemma matchColorWeight_suffix:
  assumes "ds \<noteq> []" "list_all isDigit ds"
  shows "matchColorWeight (front @ CHR ''-'' # ds) = Some ds"
proof -
  have nd: "\<not> isDigit (CHR ''-'')" by (simp add: isDigit_def code_def)
  have a: "list_all isDigit (rev ds)" using assms(2) by (simp add: list_all_iff)
  have t: "takeWhile isDigit (rev ds @ CHR ''-'' # rev front) = rev ds"
    using a nd by (rule takeWhile_run)
  have d: "dropWhile isDigit (rev ds @ CHR ''-'' # rev front) = CHR ''-'' # rev front"
    using a nd by (rule dropWhile_run)
  show ?thesis
    using assms(1) by (simp add: matchColorWeight_def t d Let_def)
qed

lemma digits_not_endsWith:
  assumes "ds \<noteq> []" "list_all isDigit ds" "p \<noteq> []" "\<not> isDigit (last p)"
  shows "\<not> endsWith (front @ CHR ''-'' # ds) p"
proof
  assume "endsWith (front @ CHR ''-'' # ds) p"
  then have "last (front @ CHR ''-'' # ds) = last p" using assms(3) by (rule endsWith_last)
  moreover have "last (front @ CHR ''-'' # ds) = last ds" using assms(1) by simp
  moreover have "isDigit (last ds)" using assms(1,2) by (induction ds) auto
  ultimately show False using assms(4) by simp
qed

lemma js_lt_nat: "js_lt (Num (of_nat m)) (Num (of_nat n)) = (m < n)"
  by simp

lemma weight_lt_700:
  assumes "ds \<noteq> []" "list_all isDigit ds"
  shows "js_lt (Number_opt (Some ds)) (Num 700) = (digitsValue 10 ds < 700)"
proof -
  have "js_lt (Num (of_nat (digitsValue 10 ds))) (Num (of_nat 700)) = (digitsValue 10 ds < 700)"
    by (rule js_lt_nat)
  then show ?thesis using assms by (simp add: Number_opt_def Number_js_digits)
qed

lemma weight_ge_700:
  assumes "ds \<noteq> []" "list_all isDigit ds"
  shows "js_ge (Number_opt (Some ds)) (Num 700) = (700 \<le> digitsValue 10 ds)"
proof -
  have "js_lt (Num (of_nat 700)) (Num (of_nat (digitsValue 10 ds))) = (700 < digitsValue 10 ds)"
    by (rule js_lt_nat)
  moreover have "(Num 700 = Num (of_nat (digitsValue 10 ds))) = (700 = digitsValue 10 ds)"
    by (metis number.inject of_nat_eq_iff of_nat_numeral)
  ultimately show ?thesis
    using assms by (auto simp: Number_opt_def Number_js_digits js_ge_def js_le_def js_eq_def)
qed

lemma textColor_suffix:
  assumes "ds \<noteq> []" "list_all isDigit ds"
  shows "textColor (front @ CHR ''-'' # ds)
         = (if 700 \<le> digitsValue 10 ds then ''var(--dh-color-gray-75)''
            else ''var(--dh-color-gray-800)'')"
  using assms
  by (simp add: textColor_def matchColorWeight_suffix weight_lt_700 Let_def del: Number_opt_def)

lemma iframe_textColor_suffix:
  assumes "ds \<noteq> []" "list_all isDigit ds"
  shows "iframe_textColor (front @ CHR ''-'' # ds)
         = (if 700 \<le> digitsValue 10 ds then ''var(--dh-color-gray-75)''
            else ''var(--dh-color-gray-800)'')"
  using assms
  by (simp add: iframe_textColor_def matchColorWeight_suffix weight_ge_700 Let_def)

subsection \<open>The loop\<close>

lemma buildSwatch_children:
  "buildSwatch cs i property \<lparr> children = c @ xs, prevProperty = p \<rparr>
   = (\<lparr> children = c @ children (fst (buildSwatch cs i property \<lparr> children = xs, prevProperty = p \<rparr>)),
        prevProperty = prevProperty (fst (buildSwatch cs i property \<lparr> children = xs, prevProperty = p \<rparr>)) \<rparr>,
      snd (buildSwatch cs i property \<lparr> children = xs, prevProperty = p \<rparr>))"
  by (simp add: buildSwatch_def Let_def split: option.split)

lemma iframe_swatch_children:
  "iframe_swatch cs i property \<lparr> children = c @ xs, prevProperty = p \<rparr>
   = (\<lparr> children = c @ children (fst (iframe_swatch cs i property \<lparr> children = xs, prevProperty = p \<rparr>)),
        prevProperty = prevProperty (fst (iframe_swatch cs i property \<lparr> children = xs, prevProperty = p \<rparr>)) \<rparr>,
      snd (iframe_swatch cs i property \<lparr> children = xs, prevProperty = p \<rparr>))"
  by (simp add: iframe_swatch_def Let_def)

lemma forEachSwatch_children:
  assumes step: "\<And>i property xs p.
     step i property \<lparr> children = c @ xs, prevProperty = p \<rparr>
     = (\<lparr> children = c @ children (fst (step i property \<lparr> children = xs, prevProperty = p \<rparr>)),
          prevProperty = prevProperty (fst (step i property \<lparr> children = xs, prevProperty = p \<rparr>)) \<rparr>,
        snd (step i property \<lparr> children = xs, prevProperty = p \<rparr>))"
  shows "forEachSwatch step i names \<lparr> children = c @ xs, prevProperty = p \<rparr>
   = (\<lparr> children = c @ children (fst (forEachSwatch step i names \<lparr> children = xs, prevProperty = p \<rparr>)),
        prevProperty = prevProperty (fst (forEachSwatch step i names \<lparr> children = xs, prevProperty = p \<rparr>)) \<rparr>,
      snd (forEachSwatch step i names \<lparr> children = xs, prevProperty = p \<rparr>))"
proof (induction names arbitrary: i xs p)
  case Nil
  show ?case by simp
next
  case (Cons property rest)
  obtain ys q e where r: "step i property \<lparr> children = xs, prevProperty = p \<rparr>
      = (\<lparr> children = ys, prevProperty = q \<rparr>, e)"
    by (metis prod.collapse swatches.cases)
  have s: "step i property \<lparr> children = c @ xs, prevProperty = p \<rparr>
      = (\<lparr> children = c @ ys, prevProperty = q \<rparr>, e)"
    by (simp add: step r)
  show ?case
  proof (cases e)
    case None
    then show ?thesis 
      using Cons.IH [of "Suc i" ys q] by (simp add: r s)
  next
    case (Some a)
    then show ?thesis by (simp add: r s)
  qed
qed

subsection \<open>Hues of a family\<close>

















subsection \<open>Primaries, black and white\<close>

lemma matchRgb_red: "matchRgb ''rgb(255 0 0)'' = Some (''255'', ''0'', ''0'')"
  by (simp add: matchRgb_def ev)

lemma matchRgb_green: "matchRgb ''rgb(0 255 0)'' = Some (''0'', ''255'', ''0'')"
  by (simp add: matchRgb_def ev)

lemma matchRgb_blue: "matchRgb ''rgb(0 0 255)'' = Some (''0'', ''0'', ''255'')"
  by (simp add: matchRgb_def ev)

lemma matchRgb_black: "matchRgb ''rgb(0 0 0)'' = Some (''0'', ''0'', ''0'')"
  by (simp add: matchRgb_def ev)

lemma matchRgb_white: "matchRgb ''rgb(255 255 255)'' = Some (''255'', ''255'', ''255'')"
  by (simp add: matchRgb_def ev)

lemma Number_js_0: "Number_js ''0'' = Num 0"
  by (simp add: ev)

lemma Number_js_255: "Number_js ''255'' = Num 255"
  by (simp add: ev)

lemma hslOfRgb_red: "hslOfRgb ''255'' ''0'' ''0'' = (Num 0, Num 1, Num (1 / 2))"
  by (simp add: hslOfRgb_def Number_js_0 Number_js_255 num_ev Let_def)

lemma hslOfRgb_green: "hslOfRgb ''0'' ''255'' ''0'' = (Num 120, Num 1, Num (1 / 2))"
  by (simp add: hslOfRgb_def Number_js_0 Number_js_255 num_ev Let_def)

lemma hslOfRgb_blue: "hslOfRgb ''0'' ''0'' ''255'' = (Num 240, Num 1, Num (1 / 2))"
  by (simp add: hslOfRgb_def Number_js_0 Number_js_255 num_ev Let_def)

lemma hslOfRgb_black: "hslOfRgb ''0'' ''0'' ''0'' = (Num 0, NaN, Num 0)"
  by (simp add: hslOfRgb_def Number_js_0 Number_js_255 num_ev Let_def)

lemma hslOfRgb_white: "hslOfRgb ''255'' ''255'' ''255'' = (Num 0, NaN, Num 1)"
  by (simp add: hslOfRgb_def Number_js_0 Number_js_255 num_ev Let_def)

subsection \<open>The sample theme\<close>











subsection \<open>Hexadecimal digits\<close>

lemma inj_code: "inj code"
  by (simp add: inj_def code_def)

lemma isHexDigit_cases:
  assumes "isHexDigit x"
  shows "x \<in> set ''0123456789abcdefABCDEF''"
proof -
  have r: "48 \<le> n \<Longrightarrow> n \<le> 57 \<Longrightarrow>
           n = 48 \<or> n = 49 \<or> n = 50 \<or> n = 51 \<or> n = 52 \<or> n = 53 \<or> n = 54 \<or> n = 55 \<or> n = 56
           \<or> n = 57" for n :: nat
    by arith
  have s: "97 \<le> n \<Longrightarrow> n \<le> 102 \<Longrightarrow> n = 97 \<or> n = 98 \<or> n = 99 \<or> n = 100 \<or> n = 101 \<or> n = 102"
    for n :: nat
    by arith
  have t: "65 \<le> n \<Longrightarrow> n \<le> 70 \<Longrightarrow> n = 65 \<or> n = 66 \<or> n = 67 \<or> n = 68 \<or> n = 69 \<or> n = 70"
    for n :: nat
    by arith
  have i: "code ` set ''0123456789abcdefABCDEF''
           = {48, 49, 50, 51, 52, 53, 54, 55, 56, 57, 97, 98, 99, 100, 101, 102,
              65, 66, 67, 68, 69, 70}"
    by (simp add: code_def)
  have "code x \<in> {48, 49, 50, 51, 52, 53, 54, 55, 56, 57, 97, 98, 99, 100, 101, 102,
                   65, 66, 67, 68, 69, 70}"
    using assms r [of "code x"] s [of "code x"] t [of "code x"]
    unfolding isHexDigit_def isDigit_def by blast
  then have "code x \<in> code ` set ''0123456789abcdefABCDEF''"
    by (simp only: i)
  then show ?thesis
    by (simp only: inj_image_mem_iff [OF inj_code])
qed

lemma hex_table:
  "list_all (\<lambda>x. digitValue x < 16 \<and> digitChar (digitValue x) = toLowerCase x
      \<and> \<not> isWhiteSpace x \<and> x \<noteq> CHR ''-'' \<and> x \<noteq> CHR ''+'' \<and> x \<noteq> CHR ''x'' \<and> x \<noteq> CHR ''X'')
     ''0123456789abcdefABCDEF''"
  by (simp add: digitValue_def digitChar_def char_ev)

lemma hex_facts:
  assumes "isHexDigit x"
  shows "digitValue x < 16" and "digitChar (digitValue x) = toLowerCase x"
    and "\<not> isWhiteSpace x" and "x \<noteq> CHR ''-''" and "x \<noteq> CHR ''+''" and "x \<noteq> CHR ''x''"
    and "x \<noteq> CHR ''X''"
  using hex_table isHexDigit_cases [OF assms] unfolding list_all_iff by blast+

text \<open>Two hexadecimal digits are read as a byte.\<close>

lemma parseInt16_byte:
  assumes "isHexDigit x" "isHexDigit y"
  shows "parseInt16 [x, y] = Num (of_nat (digitValue x * 16 + digitValue y))"
  using assms hex_facts [OF assms(1)] hex_facts [OF assms(2)]
  by (simp add: parseInt16_def stripSign_def startsWith_def signedNum_def digitsValue_def)

text \<open>A byte is printed as two hexadecimal digits.\<close>

lemma showNat16_byte:
  assumes "p < 16" "q < 16"
  shows "padStart0 2 (showNat 16 (p * 16 + q)) = [digitChar p, digitChar q]"
proof (cases "p = 0")
  case True
  then show ?thesis
    using assms by (simp add: showNat.simps [of 16 q] padStart0_def digitChar_def)
next
  case False
  then have "\<not> p * 16 + q < 16" by simp
  then show ?thesis
    using assms
    by (simp add: showNat.simps [of 16 "p * 16 + q"] showNat.simps [of 16 p] padStart0_def)
qed

lemma byte_lowercase:
  assumes "isHexDigit x" "isHexDigit y"
  shows "padStart0 2 (toString 16 (Num (of_nat (digitValue x * 16 + digitValue y))))
         = [toLowerCase x, toLowerCase y]"
  using showNat16_byte [OF hex_facts(1) [OF assms(1)] hex_facts(1) [OF assms(2)]]
  by (simp only: toString_nat hex_facts(2) [OF assms(1)] hex_facts(2) [OF assms(2)])

subsection \<open>From a hex colour to \<^verbatim>\<open>rgb(...)\<close> and back\<close>

lemma hexToRgb_six:
  assumes "list_all isHexDigit [c1, c2, c3, c4, c5, c6]"
  shows "hexToRgb (''#'' @ [c1, c2, c3, c4, c5, c6])
         = ''rgb('' @ (showNat 10 (digitValue c1 * 16 + digitValue c2) @ '' ''
           @ showNat 10 (digitValue c3 * 16 + digitValue c4) @ '' ''
           @ showNat 10 (digitValue c5 * 16 + digitValue c6)) @ '')''"
proof -
  from assms have h: "isHexDigit c1" "isHexDigit c2" "isHexDigit c3" "isHexDigit c4"
    "isHexDigit c5" "isHexDigit c6"
    by simp_all
  have p: "toString 10 (parseInt16 [c1, c2]) = showNat 10 (digitValue c1 * 16 + digitValue c2)"
    "toString 10 (parseInt16 [c3, c4]) = showNat 10 (digitValue c3 * 16 + digitValue c4)"
    "toString 10 (parseInt16 [c5, c6]) = showNat 10 (digitValue c5 * 16 + digitValue c6)"
    by (simp_all only: parseInt16_byte [OF h(1) h(2)] parseInt16_byte [OF h(3) h(4)]
        parseInt16_byte [OF h(5) h(6)] toString_nat)
  show ?thesis
    by (simp add: hexToRgb_def startsWith_def substring_def Let_def p del: toString.simps)
qed

lemma digit_not_separator:
  "isDigit c \<Longrightarrow> c \<noteq> CHR '' '' \<and> c \<noteq> CHR '','' \<and> c \<noteq> CHR ''/'' \<and> c \<noteq> CHR ''a''"
  by (auto simp: isDigit_def code_def)

lemma split_digits_sep:
  "list_all isDigit R \<Longrightarrow> sep = CHR '' '' \<or> sep = CHR '','' \<or> sep = CHR ''/'' \<Longrightarrow>
   split acc (R @ sep # rest) = (rev acc @ R) # split [] rest"
proof (induction R arbitrary: acc)
  case Nil
  then show ?case by auto
next
  case (Cons c R)
  then show ?case using digit_not_separator [of c] by simp
qed

lemma split_digits_end: "list_all isDigit R \<Longrightarrow> split acc R = [rev acc @ R]"
proof (induction R arbitrary: acc)
  case Nil
  then show ?case by simp
next
  case (Cons c R)
  then show ?case using digit_not_separator [of c] by simp
qed

lemma digits_no_line: "list_all isDigit R \<Longrightarrow> \<not> list_ex isLineTerminator R"
  by (induction R) (auto simp: isDigit_not_line)

lemma matchRgba_rgb:
  "\<not> list_ex isLineTerminator args \<Longrightarrow> matchRgba (''rgb('' @ args @ '')'') = Some (''rgb'', args)"
  by (simp add: matchRgba_def lit_def startsWith_def butlast_append)

lemma parseRgba_rgb:
  assumes "R \<noteq> []" "list_all isDigit R" "G \<noteq> []" "list_all isDigit G"
    "B \<noteq> []" "list_all isDigit B"
  shows "parseRgba (''rgb('' @ (R @ '' '' @ G @ '' '' @ B) @ '')'')
         = Some (Rgba (Num (of_nat (digitsValue 10 R))) (Num (of_nat (digitsValue 10 G)))
                  (Num (of_nat (digitsValue 10 B))) (Num 1))"
proof -
  define args where "args = R @ '' '' @ G @ '' '' @ B"
  have sp: "\<not> isLineTerminator (CHR '' '')" by (simp add: isLineTerminator_def code_def)
  have t: "\<not> list_ex isLineTerminator args"
    using digits_no_line [OF assms(2)] digits_no_line [OF assms(4)] digits_no_line [OF assms(6)] sp
    by (simp add: args_def)
  have s: "split [] args = [R, G, B]"
    using split_digits_sep [OF assms(2), of "CHR '' ''" "[]" "G @ '' '' @ B"]
      split_digits_sep [OF assms(4), of "CHR '' ''" "[]" B] split_digits_end [OF assms(6), of "[]"]
    by (simp add: args_def)
  have "parseRgba (''rgb('' @ args @ '')'')
         = Some (Rgba (Num (of_nat (digitsValue 10 R))) (Num (of_nat (digitsValue 10 G)))
                  (Num (of_nat (digitsValue 10 B))) (Num 1))"
    unfolding parseRgba_def matchRgba_rgb [OF t] using assms
    by (simp add: s Number_js_digits Let_def)
  then show ?thesis by (simp only: args_def)
qed

lemma rgbaToHex8_bytes:
  assumes "list_all isHexDigit [c1, c2, c3, c4, c5, c6]"
  shows "rgbaToHex8 (Rgba (Num (of_nat (digitValue c1 * 16 + digitValue c2)))
                       (Num (of_nat (digitValue c3 * 16 + digitValue c4)))
                       (Num (of_nat (digitValue c5 * 16 + digitValue c6))) (Num 1))
         = ''#'' @ map toLowerCase [c1, c2, c3, c4, c5, c6] @ ''ff''"
proof -
  from assms have h: "isHexDigit c1" "isHexDigit c2" "isHexDigit c3" "isHexDigit c4"
    "isHexDigit c5" "isHexDigit c6"
    by simp_all
  have a: "padStart0 2 (toString 16 (Math_round (js_mul (Num 1) (Num 255)))) = ''ff''"
    by (simp add: print_ev padStart0_def)
  show ?thesis
    unfolding rgbaToHex8.simps Let_def
    by (simp only: list.map concat.simps a byte_lowercase [OF h(1) h(2)]
        byte_lowercase [OF h(3) h(4)] byte_lowercase [OF h(5) h(6)]) simp
qed

lemma length_six: "length ds = 6 \<Longrightarrow> \<exists>c1 c2 c3 c4 c5 c6. ds = [c1, c2, c3, c4, c5, c6]"
  by (auto simp: eval_nat_numeral length_Suc_conv)

lemma toLowerCase_id: "\<not> isUpper c \<Longrightarrow> toLowerCase c = c"
proof -
  assume "\<not> isUpper c"
  then have "c \<notin> set ''ABCDEFGHIJKLMNOPQRSTUVWXYZ''"
    by (auto simp: isUpper_def code_def)
  then show ?thesis
    by (simp add: toLowerCase_def)
qed

subsection \<open>Grays between black and white\<close>

lemma showNat_length3: "n < 1000 \<Longrightarrow> length (showNat 10 n) \<le> 3"
  by (simp add: showNat.simps [of 10 n] showNat.simps [of 10 "n div 10"]
      showNat.simps [of 10 "n div 10 div 10"])

lemma digitRun_showNat:
  assumes "n < 1000" "\<not> isDigit c"
  shows "digitRun 3 (showNat 10 n @ c # rest) = Some (showNat 10 n, c # rest)"
  using assms showNat_length3 [OF assms(1)] showNat_nonempty [of 10 n]
  by (simp add: digitRun_def takeWhile_run dropWhile_run showNat_digits Let_def Suc_le_eq)

lemma matchRgb_gray:
  assumes "v < 1000"
  shows "matchRgb (''rgb('' @ (showNat 10 v @ '' '' @ showNat 10 v @ '' '' @ showNat 10 v @ '')''))
         = Some (showNat 10 v, showNat 10 v, showNat 10 v)"
proof -
  have n: "\<not> isDigit (CHR '' '')" "\<not> isDigit (CHR '')'')"
    by (simp_all add: isDigit_def code_def)
  have l: "lit ''rgb('' (CHR ''r'' # CHR ''g'' # CHR ''b'' # CHR ''('' # w) = Some w"
    "lit '' '' (CHR '' '' # w) = Some w" for w
    by (simp_all add: lit_def startsWith_def)
  show ?thesis
    unfolding matchRgb_def
    by (simp add: l digitRun_showNat [OF assms n(1)] digitRun_showNat [OF assms n(2)])
qed

lemma hslOfRgb_gray:
  assumes "0 < v" "v < 255"
  shows "hslOfRgb (showNat 10 v) (showNat 10 v) (showNat 10 v)
         = (Num 0, Num 0, Num (of_nat v / 255))"
proof -
  have a: "(of_nat v :: rat) / 255 \<noteq> 0" using assms by simp
  have b: "(2 :: rat) - of_nat v / 255 - of_nat v / 255 \<noteq> 0" using assms by simp
  have c: "((of_nat v :: rat) / 255 + of_nat v / 255) / 2 = of_nat v / 255" by simp
  show ?thesis
    unfolding hslOfRgb_def Number_js_showNat Let_def
    using a b by (simp add: num_ev c)
qed

lemma rgbToHsl_gray:
  assumes "0 < v" "v < 255"
  shows "startsWith
           (rgbToHsl (''rgb('' @ (showNat 10 v @ '' '' @ showNat 10 v @ '' '' @ showNat 10 v @ '')'')))
           ''hsl(0deg 0% ''
         \<and> startsWith
           (rgbToHsl_part_000
              (''rgb('' @ (showNat 10 v @ '' '' @ showNat 10 v @ '' '' @ showNat 10 v @ '')'')))
           ''hsl(0deg 0% ''"
proof -
  have m: "matchRgb (''rgb('' @ (showNat 10 v @ '' '' @ showNat 10 v @ '' '' @ showNat 10 v @ '')''))
         = Some (showNat 10 v, showNat 10 v, showNat 10 v)"
    using assms by (intro matchRgb_gray) simp
  have z: "toString 10 (Num 0) = ''0''" by (simp add: print_ev)
  show ?thesis
    unfolding rgbToHsl_def rgbToHsl_part_000_def m
    by (simp add: hslOfRgb_gray [OF assms] Let_def startsWith_def z del: toString.simps)
qed

subsection \<open>A member without a readable hue\<close>

lemma foldl_hues_NaN:
  "foldl (\<lambda>total hsl. js_add total (hueOf hsl)) NaN hslColors = NaN"
  by (induction hslColors) simp_all

lemma hueAvg_unreadable:
  assumes "colorName \<noteq> ''grayx''" "hsl \<in> set hslColors" "extractHsl hsl = None"
  shows "hueAvg colorName hslColors = NaN"
proof -
  have h: "hueOf hsl = NaN" by (simp add: hueOf_def Number_opt_def assms(3))
  have "foldl (\<lambda>total hsl. js_add total (hueOf hsl)) t hslColors = NaN" for t
    using assms(2)
  proof (induction hslColors arbitrary: t)
    case Nil
    then show ?case by simp
  next
    case (Cons x xs)
    show ?case
    proof (cases "x = hsl")
      case True
      have "js_add t NaN = NaN" by (cases t) simp_all
      then show ?thesis by (simp add: True h foldl_hues_NaN)
    next
      case False
      with Cons show ?thesis by simp
    qed
  qed
  then show ?thesis using assms(1) by (simp add: hueAvg_def)
qed

lemma extractHsl_white: "extractHsl ''hsl(0deg NaN% 100%)'' = None"
  by (simp add: extractHsl_def ev)

lemma baseHue_white:
  "baseHue (familyRanges ''gray'' [(''--dh-color-gray-50'', ''#ffffff'')])
   = [(''--dh-color-gray-hue'', ''NaNdeg'')]"
proof -
  have h: "hexToRgb ''#ffffff'' = ''rgb(255 255 255)''"
    by (simp add: hexToRgb_def ev)
  have r: "rgbToHsl ''rgb(255 255 255)'' = ''hsl(0deg NaN% 100%)''"
    by (simp add: rgbToHsl_def matchRgb_white hslOfRgb_white print_ev)
  have "hueAvg ''gray'' [''hsl(0deg NaN% 100%)''] = NaN"
    by (rule hueAvg_unreadable [OF _ _ extractHsl_white]) simp_all
  then show ?thesis
    by (simp add: familyRanges_def h r Let_def)
qed


section \<open>Finding the stylesheet\<close>

text \<open>
  Claim C7. When no loaded stylesheet has an \<^verbatim>\<open>href\<close> that ends with \<^verbatim>\<open>/\<close> and the requested
  path, \<^verbatim>\<open>getCssPropertyNames\<close> throws the error \<^verbatim>\<open>No style sheet found\<close>. When some sheet
  matches, that error is not thrown, and the first rule of the first matching sheet gives
  the property names: the declared names that start with \<^verbatim>\<open>--\<close>, in order.
\<close>

theorem getCssPropertyNames_sheet:
  "(\<not> list_ex (hrefMatches cssPath) styleSheets \<longrightarrow>
      getCssPropertyNames styleSheets cssPath = Inl (Error ''No style sheet found''))
   \<and> (styleSheets = before @ sheet # after \<and> \<not> list_ex (hrefMatches cssPath) before
        \<and> hrefMatches cssPath sheet \<longrightarrow>
          getCssPropertyNames styleSheets cssPath \<noteq> Inl (Error ''No style sheet found'')
          \<and> (cssRules sheet = rule # rules \<and> style rule = Some properties \<longrightarrow>
                getCssPropertyNames styleSheets cssPath
                = Inr (filter (\<lambda>property. startsWith property ''--'') properties)))"
proof (intro conjI impI)
  assume "\<not> list_ex (hrefMatches cssPath) styleSheets"
  then show "getCssPropertyNames styleSheets cssPath = Inl (Error ''No style sheet found'')"
    by (simp add: getCssPropertyNames_def find_no_match)
next
  assume a: "styleSheets = before @ sheet # after \<and> \<not> list_ex (hrefMatches cssPath) before
        \<and> hrefMatches cssPath sheet"
  then have f: "find (hrefMatches cssPath) styleSheets = Some sheet"
    by (simp add: find_first_match)
  show "getCssPropertyNames styleSheets cssPath \<noteq> Inl (Error ''No style sheet found'')"
    by (simp add: getCssPropertyNames_def f split: list.split option.split)
  assume "cssRules sheet = rule # rules \<and> style rule = Some properties"
  then show "getCssPropertyNames styleSheets cssPath
                = Inr (filter (\<lambda>property. startsWith property ''--'') properties)"
    by (simp add: getCssPropertyNames_def f)
qed

theorem getCssPropertyNames_sheet_witness:
  "getCssPropertyNames [StyleSheet None []] ''themes/hex.css'' = Inl (Error ''No style sheet found'')
   \<and> getCssPropertyNames
        [StyleSheet None [],
         StyleSheet (Some ''http://localhost/themes/hex.css'')
           [CssRule (Some [''--dh-color-blue-100'', ''color'', ''--dh-color-blue-hue''])],
         StyleSheet (Some ''http://localhost/other/themes/hex.css'') []]
        ''themes/hex.css''
      = Inr [''--dh-color-blue-100'', ''--dh-color-blue-hue'']"
proof -
  have m: "hrefMatches ''themes/hex.css'' (StyleSheet (Some ''http://localhost/themes/hex.css'')
           [CssRule (Some [''--dh-color-blue-100'', ''color'', ''--dh-color-blue-hue''])])"
    by (simp add: hrefMatches_def endsWith_def)
  have n: "\<not> list_ex (hrefMatches ''themes/hex.css'') [StyleSheet None []]"
    by (simp add: hrefMatches_def)
  show ?thesis
    using getCssPropertyNames_sheet [of "''themes/hex.css''" "[StyleSheet None []]"]
      getCssPropertyNames_sheet [of "''themes/hex.css''"
        "[StyleSheet None [],
         StyleSheet (Some ''http://localhost/themes/hex.css'')
           [CssRule (Some [''--dh-color-blue-100'', ''color'', ''--dh-color-blue-hue''])],
         StyleSheet (Some ''http://localhost/other/themes/hex.css'') []]"
        "[StyleSheet None []]"
        "StyleSheet (Some ''http://localhost/themes/hex.css'')
           [CssRule (Some [''--dh-color-blue-100'', ''color'', ''--dh-color-blue-hue''])]"
        "[StyleSheet (Some ''http://localhost/other/themes/hex.css'') []]"
        "CssRule (Some [''--dh-color-blue-100'', ''color'', ''--dh-color-blue-hue''])" "[]"
        "[''--dh-color-blue-100'', ''color'', ''--dh-color-blue-hue'']"]
      m n
    by (simp add: startsWith_def)
qed

section \<open>\<^verbatim>\<open>rgbToHsl\<close> on primaries and grays\<close>

text \<open>
  Claim C5. \<^verbatim>\<open>rgbToHsl\<close> maps red \<^verbatim>\<open>rgb(255 0 0)\<close> to \<^verbatim>\<open>hsl(0deg 100% 50%)\<close>, green
  \<^verbatim>\<open>rgb(0 255 0)\<close> to \<^verbatim>\<open>hsl(120deg 100% 50%)\<close> and blue \<^verbatim>\<open>rgb(0 0 255)\<close> to
  \<^verbatim>\<open>hsl(240deg 100% 50%)\<close>.
\<close>

theorem rgbToHsl_primary:
  "rgbToHsl ''rgb(255 0 0)'' = ''hsl(0deg 100% 50%)''
   \<and> rgbToHsl ''rgb(0 255 0)'' = ''hsl(120deg 100% 50%)''
   \<and> rgbToHsl ''rgb(0 0 255)'' = ''hsl(240deg 100% 50%)''"
  by (simp add: rgbToHsl_def matchRgb_red matchRgb_green matchRgb_blue
      hslOfRgb_red hslOfRgb_green hslOfRgb_blue print_ev)

text \<open>
  Claim C1 asks of every gray \<^verbatim>\<open>rgb(v v v)\<close> a hue of 0 degrees and a saturation of 0%.
  For \<open>v\<close> from 1 to 254 both versions of \<^verbatim>\<open>rgbToHsl\<close> print that (lemma
  \<open>rgbToHsl_gray\<close>). The hue is guarded by the test \<^verbatim>\<open>max === min\<close>; the saturation is not,
  and at black and at white its divisor \<^verbatim>\<open>max + min\<close>, or \<^verbatim>\<open>2 - max - min\<close>, is zero as well
  as its dividend: there both versions print the saturation \<^verbatim>\<open>NaN%\<close>.
\<close>

theorem rgbToHsl_black_white:
  "rgbToHsl ''rgb(0 0 0)'' = ''hsl(0deg NaN% 0%)''
   \<and> rgbToHsl ''rgb(255 255 255)'' = ''hsl(0deg NaN% 100%)''
   \<and> rgbToHsl_part_000 ''rgb(0 0 0)'' = ''hsl(0deg NaN% 0%)''
   \<and> rgbToHsl_part_000 ''rgb(255 255 255)'' = ''hsl(0deg NaN% 100%)''"
  by (simp add: rgbToHsl_def rgbToHsl_part_000_def matchRgb_black matchRgb_white
      hslOfRgb_black hslOfRgb_white print_ev)

section \<open>The round trip from a hex colour\<close>

text \<open>
  Claim C2 says that a six-digit hex colour, taken to \<^verbatim>\<open>rgb(...)\<close> by \<^verbatim>\<open>hexToRgb\<close> and back
  by \<^verbatim>\<open>parseRgba\<close> and \<^verbatim>\<open>rgbaToHex8\<close> (the first seven characters of the result), comes
  back with its six digits. \<^verbatim>\<open>toString(16)\<close> prints lower-case digits, so an upper-case
  digit does not come back as it was:
\<close>

theorem hex_round_trip_counterexample:
  "list_all isHexDigit ''FF0000''
   \<and> map_option (\<lambda>c. substring (rgbaToHex8 c) 0 7) (parseRgba (hexToRgb ''#FF0000''))
     = Some ''#ff0000''
   \<and> ''#ff0000'' \<noteq> ''#FF0000''"
proof -
  have h: "hexToRgb ''#FF0000'' = ''rgb(255 0 0)''" by (simp add: hexToRgb_def ev)
  have m: "matchRgba ''rgb(255 0 0)'' = Some (''rgb'', ''255 0 0'')"
    by (simp add: matchRgba_def ev)
  have p: "parseRgba ''rgb(255 0 0)'' = Some (Rgba (Num 255) (Num 0) (Num 0) (Num 1))"
    by (simp add: parseRgba_def m Number_js_0 Number_js_255)
  have r: "rgbaToHex8 (Rgba (Num 255) (Num 0) (Num 0) (Num 1)) = ''#ff0000ff''"
    by (simp add: rgbaToHex8.simps print_ev padStart0_def)
  show ?thesis
    by (simp add: h p r substring_def isHexDigit_def isDigit_def code_def)
qed

text \<open>
  Claim C2, amended. For every \<^verbatim>\<open>#\<close> followed by six hexadecimal digits, upper or lower
  case, the round trip through \<^verbatim>\<open>hexToRgb\<close>, \<^verbatim>\<open>parseRgba\<close> and \<^verbatim>\<open>rgbaToHex8\<close> gives \<^verbatim>\<open>#\<close>
  and the six digits in lower case; a colour without upper-case digits comes back
  unchanged.
\<close>

theorem hex_round_trip:
  assumes "length ds = 6" "list_all isHexDigit ds"
  shows "map_option (\<lambda>c. substring (rgbaToHex8 c) 0 7) (parseRgba (hexToRgb (''#'' @ ds)))
         = Some (''#'' @ map toLowerCase ds)
         \<and> (list_all (\<lambda>c. \<not> isUpper c) ds \<longrightarrow> map toLowerCase ds = ds)"
proof -
  from length_six [OF assms(1)] obtain c1 c2 c3 c4 c5 c6 where ds: "ds = [c1, c2, c3, c4, c5, c6]"
    by blast
  have hx: "list_all isHexDigit [c1, c2, c3, c4, c5, c6]" using assms(2) by (simp add: ds)
  have p: "parseRgba (hexToRgb (''#'' @ ds))
           = Some (Rgba (Num (of_nat (digitValue c1 * 16 + digitValue c2)))
                       (Num (of_nat (digitValue c3 * 16 + digitValue c4)))
                       (Num (of_nat (digitValue c5 * 16 + digitValue c6))) (Num 1))"
    unfolding ds hexToRgb_six [OF hx]
    by (simp only: parseRgba_rgb [OF showNat_nonempty showNat_digits showNat_nonempty
          showNat_digits showNat_nonempty showNat_digits] digitsValue_showNat)
  have "map_option (\<lambda>c. substring (rgbaToHex8 c) 0 7) (parseRgba (hexToRgb (''#'' @ ds)))
         = Some (''#'' @ map toLowerCase ds)"
    unfolding p option.map rgbaToHex8_bytes [OF hx] by (simp add: substring_def ds)
  moreover have "list_all (\<lambda>c. \<not> isUpper c) ds \<longrightarrow> map toLowerCase ds = ds"
    by (induction ds) (simp_all add: toLowerCase_id)
  ultimately show ?thesis by simp
qed

theorem hex_round_trip_witness:
  "map_option (\<lambda>c. substring (rgbaToHex8 c) 0 7) (parseRgba (hexToRgb ''#1f5fd3''))
   = Some ''#1f5fd3''"
proof -
  have a: "length ''1f5fd3'' = 6" by simp
  have b: "list_all isHexDigit ''1f5fd3''" by (simp add: isHexDigit_def isDigit_def code_def)
  have c: "list_all (\<lambda>c. \<not> isUpper c) ''1f5fd3''" by (simp add: isUpper_def code_def)
  show ?thesis
    using hex_round_trip [OF a b] c by auto
qed

section \<open>The text colour of a swatch\<close>

text \<open>
  Claim C4. A property name that ends in \<^verbatim>\<open>-\<close> and a run of digits gets, in the builder of
  \<^verbatim>\<open>src/util.js\<close> and in the loop of \<^verbatim>\<open>src/iframe.js\<close> alike, the light text colour
  \<^verbatim>\<open>var(--dh-color-gray-75)\<close> when the number is 700 or more and the dark text colour
  \<^verbatim>\<open>var(--dh-color-gray-800)\<close> when it is less: the step appends one element, and that is its
  colour.
\<close>

theorem swatch_text_color:
  assumes "property = front @ ''-'' @ ds" "ds \<noteq> []" "list_all isDigit ds"
  shows "map color (children (fst (buildSwatch cs i property st)))
         = map color (children st)
           @ [if 700 \<le> digitsValue 10 ds then ''var(--dh-color-gray-75)''
              else ''var(--dh-color-gray-800)'']
         \<and> map color (children (fst (iframe_swatch cs i property st)))
         = map color (children st)
           @ [if 700 \<le> digitsValue 10 ds then ''var(--dh-color-gray-75)''
              else ''var(--dh-color-gray-800)'']"
proof -
  have nl: "\<not> isDigit (last ''-hsl'')" "\<not> isDigit (last ''-hue'')"
    by (simp_all add: isDigit_def code_def)
  have e: "\<not> endsWith property ''-hsl''" "\<not> endsWith property ''-hue''"
    using assms nl by (simp_all add: digits_not_endsWith del: last.simps)
  have t: "textColor property = (if 700 \<le> digitsValue 10 ds then ''var(--dh-color-gray-75)''
            else ''var(--dh-color-gray-800)'')"
    using assms by (simp add: textColor_suffix)
  have t': "iframe_textColor property = (if 700 \<le> digitsValue 10 ds then ''var(--dh-color-gray-75)''
            else ''var(--dh-color-gray-800)'')"
    using assms by (simp add: iframe_textColor_suffix)
  have 1: "map color (children (fst (buildSwatch cs i property st)))
         = map color (children st) @ [textColor property]"
    by (simp add: buildSwatch_def e Let_def split: option.split)
  have 2: "map color (children (fst (iframe_swatch cs i property st)))
         = map color (children st) @ [iframe_textColor property]"
    by (simp add: iframe_swatch_def e Let_def)
  show ?thesis unfolding 1 2 t t' by simp
qed

theorem swatch_text_color_witness:
  "map color (children (fst (buildSwatch cs0 0 ''--dh-color-blue-700'' \<lparr> children = [], prevProperty = None \<rparr>)))
     = [''var(--dh-color-gray-75)'']
   \<and> map color (children (fst (iframe_swatch cs0 0 ''--dh-color-blue-700'' \<lparr> children = [], prevProperty = None \<rparr>)))
     = [''var(--dh-color-gray-75)'']
   \<and> map color (children (fst (buildSwatch cs0 0 ''--dh-color-blue-600'' \<lparr> children = [], prevProperty = None \<rparr>)))
     = [''var(--dh-color-gray-800)'']
   \<and> map color (children (fst (iframe_swatch cs0 0 ''--dh-color-blue-600'' \<lparr> children = [], prevProperty = None \<rparr>)))
     = [''var(--dh-color-gray-800)'']"
proof -
  have d: "list_all isDigit ''700''" "list_all isDigit ''600''"
    by (simp_all add: isDigit_def code_def)
  have v: "digitsValue 10 ''700'' = 700" "digitsValue 10 ''600'' = 600"
    by (simp_all add: digitsValue_def digitValue_def isDigit_def code_def)
  show ?thesis
    using swatch_text_color [of "''--dh-color-blue-700''" "''--dh-color-blue''" "''700''" cs0 0
        "\<lparr> children = [], prevProperty = None \<rparr>"]
      swatch_text_color [of "''--dh-color-blue-600''" "''--dh-color-blue''" "''600''" cs0 0
        "\<lparr> children = [], prevProperty = None \<rparr>"] d
    by (simp add: v)
qed

section \<open>Running the builder again\<close>

text \<open>
  Claim C9. The builder keeps no state between calls: \<^verbatim>\<open>prevProperty\<close> starts as \<^verbatim>\<open>null\<close>
  in every call, and what a call appends does not depend on what the container holds. A
  second run on the same names and the same computed style, on the container the first
  run left, appends the same elements again (labels, spacing, colours, titles) and ends
  the same way. The same holds for the loop of \<^verbatim>\<open>src/iframe.js\<close>.
\<close>

theorem buildSwatches_twice:
  "buildSwatches cs (fst (buildSwatches cs containerEl names)) names
   = (containerEl @ fst (buildSwatches cs [] names) @ fst (buildSwatches cs [] names),
      snd (buildSwatches cs containerEl names))
   \<and> iframe_swatches cs (fst (iframe_swatches cs containerEl names)) names
   = (containerEl @ fst (iframe_swatches cs [] names) @ fst (iframe_swatches cs [] names),
      snd (iframe_swatches cs containerEl names))"
proof -
  have a: "buildSwatches cs c names = (c @ fst (buildSwatches cs [] names), snd (buildSwatches cs [] names))" for c
    using forEachSwatch_children [of "buildSwatch cs" c 0 names "[]" None, OF buildSwatch_children]
    by (simp add: buildSwatches_def Let_def)
  have b: "iframe_swatches cs c names = (c @ fst (iframe_swatches cs [] names), snd (iframe_swatches cs [] names))" for c
    using forEachSwatch_children [of "iframe_swatch cs" c 0 names "[]" None, OF iframe_swatch_children]
    by (simp add: iframe_swatches_def Let_def)
  show ?thesis
    by (simp add: a [of containerEl] a [of "containerEl @ fst (buildSwatches cs [] names)"]
        b [of containerEl] b [of "containerEl @ fst (iframe_swatches cs [] names)"])
qed

lemma hue_not_hsl: "endsWith property ''-hue'' \<Longrightarrow> \<not> endsWith property ''-hsl''"
proof
  assume a: "endsWith property ''-hue''" and b: "endsWith property ''-hsl''"
  have "last property = CHR ''e''" using endsWith_last [OF a] by simp
  moreover have "last property = CHR ''l''" using endsWith_last [OF b] by simp
  ultimately show False by simp
qed

lemma removeHslSuffix_id: "\<not> endsWith property ''-hsl'' \<Longrightarrow> removeHslSuffix property = property"
  by (simp add: removeHslSuffix_def)

section \<open>Properties that end in \<^verbatim>\<open>-hsl\<close> or \<^verbatim>\<open>-hue\<close>\<close>

text \<open>
  Claim C10. In \<^verbatim>\<open>buildSwatches\<close> of \<^verbatim>\<open>src/util.js\<close> a property whose name ends in \<^verbatim>\<open>-hsl\<close>
  is skipped: the step leaves the container and \<^verbatim>\<open>prevProperty\<close> as they were and throws
  nothing, so the loop goes on as if from the next index. A property that ends neither in
  \<^verbatim>\<open>-hsl\<close> nor in \<^verbatim>\<open>-hue\<close> gets the background \<^verbatim>\<open>var(...)\<close> of its name with a trailing
  \<^verbatim>\<open>-hsl\<close> removed, which is the name itself.
\<close>

theorem buildSwatch_hsl_skipped:
  "(endsWith property ''-hsl'' \<longrightarrow>
      buildSwatch cs i property st = (st, None)
      \<and> forEachSwatch (buildSwatch cs) i (property # rest) st
        = forEachSwatch (buildSwatch cs) (Suc i) rest st)
   \<and> (\<not> endsWith property ''-hsl'' \<and> \<not> endsWith property ''-hue'' \<longrightarrow>
        map backgroundColor (children (fst (buildSwatch cs i property st)))
        = map backgroundColor (children st) @ [''var('' @ removeHslSuffix property @ '')'']
        \<and> removeHslSuffix property = property)"
  by (simp add: buildSwatch_def removeHslSuffix_id Let_def split: option.split)

theorem buildSwatch_hsl_skipped_witness:
  "buildSwatch cs0 1 ''--dh-color-blue-100-hsl'' \<lparr> children = [], prevProperty = Some ''--dh-color-blue-100'' \<rparr>
     = (\<lparr> children = [], prevProperty = Some ''--dh-color-blue-100'' \<rparr>, None)
   \<and> map backgroundColor (children (fst (buildSwatch cs0 0 ''--dh-color-blue-100''
         \<lparr> children = [], prevProperty = None \<rparr>)))
     = [''var(--dh-color-blue-100)'']"
proof -
  have a: "endsWith ''--dh-color-blue-100-hsl'' ''-hsl''" by (simp add: endsWith_def)
  have b: "\<not> endsWith ''--dh-color-blue-100'' ''-hsl'' \<and> \<not> endsWith ''--dh-color-blue-100'' ''-hue''"
    by (simp add: endsWith_def)
  show ?thesis
    using buildSwatch_hsl_skipped [of "''--dh-color-blue-100-hsl''" cs0 1
        "\<lparr> children = [], prevProperty = Some ''--dh-color-blue-100'' \<rparr>" "[]"]
      buildSwatch_hsl_skipped [of "''--dh-color-blue-100''" cs0 0
        "\<lparr> children = [], prevProperty = None \<rparr>" "[]"] a b
    by simp
qed

text \<open>
  Claim C8 says that a property whose name ends in \<^verbatim>\<open>-hue\<close> produces no swatch output.
  Both builders do append an element for it, with the class \<^verbatim>\<open>swatch\<close> and the label text:
\<close>

theorem hue_swatch_counterexample:
  "endsWith ''--dh-color-blue-hue'' ''-hue''
   \<and> buildSwatches \<lparr> getPropertyValue = (\<lambda>property. ''215deg''), getBackgroundColor = (\<lambda>bgColor. []) \<rparr>
        [] [''--dh-color-blue-hue'']
     = ([\<lparr> className = ''swatch'', innerHTML = ''--dh-color-blue-hue: 215deg'', innerText = [],
            marginTop = [], backgroundColor = [], color = [], title = [] \<rparr>], None)
   \<and> iframe_swatches \<lparr> getPropertyValue = (\<lambda>property. ''215deg''), getBackgroundColor = (\<lambda>bgColor. []) \<rparr>
        [] [''--dh-color-blue-hue'']
     = ([\<lparr> className = ''swatch'', innerHTML = [], innerText = ''--dh-color-blue-hue: 215deg'',
            marginTop = [], backgroundColor = [], color = [], title = [] \<rparr>], None)"
proof -
  have e: "endsWith ''--dh-color-blue-hue'' ''-hue''" "\<not> endsWith ''--dh-color-blue-hue'' ''-hsl''"
    "\<not> endsWith ''--dh-color-blue-hue'' ''-label''"
    by (simp_all add: endsWith_def)
  have h: "hexToRgb ''215deg'' = ''215deg''" by (simp add: hexToRgb_def startsWith_def)
  have m: "matchRgb ''215deg'' = None" by (simp add: matchRgb_def lit_def startsWith_def)
  have l: "swatchLabel ''--dh-color-blue-hue'' ''215deg'' = ''--dh-color-blue-hue: 215deg''"
    by (simp add: swatchLabel_def h rgbToHsl_def m e Let_def)
  show ?thesis
    by (simp add: e l buildSwatches_def iframe_swatches_def buildSwatch_def iframe_swatch_def
        newFamily_def createElement_def Let_def)
qed

text \<open>
  Claim C8, amended. For a property whose name ends in \<^verbatim>\<open>-hue\<close> both builders append one
  element with the class \<^verbatim>\<open>swatch\<close> and the label, with the family spacing when the
  colour name changes, and set no background colour, no text colour and no title on it;
  nothing is thrown. The swatch after it never gets the family spacing.
\<close>

theorem hue_swatch_uncoloured:
  assumes "endsWith property ''-hue''"
  shows "buildSwatch cs i property st
         = (\<lparr> children = children st
                @ [\<lparr> className = ''swatch'',
                     innerHTML = swatchLabel property (getPropertyValue cs property),
                     innerText = [],
                     marginTop = (if newFamily i property (prevProperty st) then ''40px'' else []),
                     backgroundColor = [], color = [], title = [] \<rparr>],
              prevProperty = Some property \<rparr>, None)
         \<and> iframe_swatch cs i property st
         = (\<lparr> children = children st
                @ [\<lparr> className = ''swatch'', innerHTML = [],
                     innerText = property @ '': '' @ getPropertyValue cs property,
                     marginTop = (if newFamily i property (prevProperty st) then ''40px'' else []),
                     backgroundColor = [], color = [], title = [] \<rparr>],
              prevProperty = Some property \<rparr>, None)
         \<and> \<not> newFamily j next (Some property)"
  using assms
  by (simp add: buildSwatch_def iframe_swatch_def hue_not_hsl createElement_def newFamily_def
      nullToString_def Let_def)

theorem hue_swatch_uncoloured_witness:
  "buildSwatch cs0 3 ''--dh-color-red-hue'' \<lparr> children = [], prevProperty = Some ''--dh-color-blue-900'' \<rparr>
   = (\<lparr> children = [\<lparr> className = ''swatch'',
                     innerHTML = swatchLabel ''--dh-color-red-hue'' ''#1f5fd3'',
                     innerText = [], marginTop = ''40px'',
                     backgroundColor = [], color = [], title = [] \<rparr>],
        prevProperty = Some ''--dh-color-red-hue'' \<rparr>, None)
   \<and> \<not> newFamily 4 ''--dh-color-red-100'' (Some ''--dh-color-red-hue'')"
proof -
  have a: "endsWith ''--dh-color-red-hue'' ''-hue''" by (simp add: endsWith_def)
  have n: "newFamily 3 ''--dh-color-red-hue'' (Some ''--dh-color-blue-900'')"
    by (simp add: newFamily_def extractColorName_def nullToString_def ev)
  show ?thesis
    using hue_swatch_uncoloured [OF a, of cs0 3
        "\<lparr> children = [], prevProperty = Some ''--dh-color-blue-900'' \<rparr>" 4 "''--dh-color-red-100''"] n
    by (simp add: cs0_def)
qed

section \<open>The hue baseline and the offsets of a family\<close>





end
